theory Spec2Isabelle
  imports Main
begin

section \<open>JavaScript values, function objects and event listeners\<close>

text \<open>
  The callbacks of the widgets take arguments of type \<open>any\<close>. The values that reach them
  are \<open>null\<close>, booleans and strings. \<open>===\<close> on such values is equality of type and
  value, and a value is truthy unless it is \<open>null\<close>, \<open>false\<close> or the empty string.
\<close>

datatype jsval = JNull | JBool bool | JStr string

fun truthy :: "jsval \<Rightarrow> bool" where
  "truthy JNull = False"
| "truthy (JBool b) = b"
| "truthy (JStr s) = (s \<noteq> [])"

definition strict_eq :: "jsval \<Rightarrow> jsval \<Rightarrow> bool" where
  "strict_eq a b = (a = b)"

text \<open>
  Function objects are compared by identity when a listener is removed.
  \<open>Method n\<close> is the function stored on the class prototype, what \<open>this.n\<close> evaluates
  to for a method \<open>n\<close>. \<open>Bound n k\<close> is the \<open>k\<close>-th function object this instance made
  with \<open>this.n.bind(this)\<close>: every call of \<open>bind\<close> returns a new object.
  \<open>Arrow n\<close> is an arrow function created once, at construction (the class field
  \<open>clickHandler\<close> of the hyperlink, the anonymous \<open>slotchange\<close> closure of the modal).
\<close>

datatype fn = Method string | Bound string nat | Arrow string

type_synonym listener = "string \<times> fn"

text \<open>
  \<open>addEventListener(type, callback)\<close> appends the pair unless the same type and the same
  callback object are registered already; \<open>removeEventListener(type, callback)\<close> removes the
  entry with that type and that very callback object, and does nothing when there is none.
  All listeners of the repository are registered without the capture option.
\<close>

definition addEventListener :: "string \<Rightarrow> fn \<Rightarrow> listener list \<Rightarrow> listener list" where
  "addEventListener ty f ls = (if (ty, f) \<in> set ls then ls else ls @ [(ty, f)])"

definition removeEventListener :: "string \<Rightarrow> fn \<Rightarrow> listener list \<Rightarrow> listener list" where
  "removeEventListener ty f ls = remove1 (ty, f) ls"

text \<open>
  An element of a shadow tree, as far as the widgets use it: its inline style declaration
  (\<open>element.style\<close>, by JavaScript property name) and its listener list.
\<close>

record element =
  style :: "string \<rightharpoonup> string"
  listeners :: "listener list"

definition blank :: element where
  "blank = \<lparr>style = Map.empty, listeners = []\<rparr>"

text \<open>
  \<open>new Event(type)\<close> with no options: the event does not bubble, is not cancelable and is
  not composed. Only a \<open>CustomEvent\<close> carries a \<open>detail\<close>; a plain event has none.
\<close>

record event =
  ev_type :: string
  bubbles :: bool
  cancelable :: bool
  composed :: bool
  detail :: "jsval option"

definition new_Event :: "string \<Rightarrow> event" where
  "new_Event ty = \<lparr>ev_type = ty, bubbles = False, cancelable = False, composed = False, detail = None\<rparr>"

section \<open>The modal (modal.ts, class Modal)\<close>

text \<open>
  What a listener on the host element can see of the modal when a signal reaches it: the
  open flag and the presented opacity and pointer-events of the backdrop and of the panel.
\<close>

record view =
  v_isOpen :: bool
  v_backdrop_opacity :: "string option"
  v_backdrop_pointerEvents :: "string option"
  v_modal_opacity :: "string option"
  v_modal_pointerEvents :: "string option"

text \<open>
  The effects of the instance in the order they happen: writes to an inline style (element
  id, property, value) and events dispatched on the host element, each with what a listener
  sees at that moment.
\<close>

datatype effect = StyleWrite string string string | Dispatched event view

text \<open>
  The instance. The shadow tree maps the ids of its elements to the element objects (the
  two slots have no id and are named \<open>slot-title\<close> and \<open>slot\<close> here; the elements no
  method refers to are left out); a field of type \<open>HTMLElement | null\<close> holds the id of
  the element it refers to or \<open>None\<close>.
  \<open>binds\<close> counts the function objects made by \<open>bind\<close> so far. \<open>lightChildren\<close> are the
  host's own child nodes, projected through the slots; no method reads or writes them.
\<close>

record modal =
  shadowRoot :: "(string \<rightharpoonup> element) option"
  backdropElement :: "string option"
  modalElement :: "string option"
  cancelButton :: "string option"
  confirmButton :: "string option"
  isOpen :: bool
  binds :: nat
  lightChildren :: "string list"
  trace :: "effect list"

text \<open>
  The style sheet the constructor puts into the shadow tree gives \<open>#backdrop\<close> and
  \<open>#modal\<close> the declarations \<open>opacity: 0\<close> and \<open>pointer-events: none\<close>. An inline
  declaration wins over the sheet.
\<close>

definition sheet :: "string \<Rightarrow> string \<Rightarrow> string option" where
  "sheet i p =
     (if i = ''backdrop'' \<or> i = ''modal'' then
        (if p = ''opacity'' then Some ''0''
         else if p = ''pointerEvents'' then Some ''none'' else None)
      else None)"

definition presented :: "modal \<Rightarrow> string \<Rightarrow> string \<Rightarrow> string option" where
  "presented m i p =
     (case shadowRoot m of
        None \<Rightarrow> None
      | Some tr \<Rightarrow>
          (case tr i of
             None \<Rightarrow> None
           | Some e \<Rightarrow> (case style e p of Some v \<Rightarrow> Some v | None \<Rightarrow> sheet i p)))"

definition view_of :: "modal \<Rightarrow> view" where
  "view_of m =
     \<lparr>v_isOpen = isOpen m,
      v_backdrop_opacity = presented m ''backdrop'' ''opacity'',
      v_backdrop_pointerEvents = presented m ''backdrop'' ''pointerEvents'',
      v_modal_opacity = presented m ''modal'' ''opacity'',
      v_modal_pointerEvents = presented m ''modal'' ''pointerEvents''\<rparr>"

text \<open>
  The tree the constructor's \<open>innerHTML\<close> builds, and the constructor, which also puts a
  \<open>slotchange\<close> listener on the second slot.
\<close>

definition initial_tree :: "string \<rightharpoonup> element" where
  "initial_tree =
     [''backdrop'' \<mapsto> blank,
      ''modal'' \<mapsto> blank,
      ''slot-title'' \<mapsto> blank,
      ''slot'' \<mapsto> blank\<lparr>listeners := [(''slotchange'', Arrow ''slotchange'')]\<rparr>,
      ''cancel-button'' \<mapsto> blank,
      ''confirm-button'' \<mapsto> blank]"

definition Modal_constructor :: "string list \<Rightarrow> modal" where
  "Modal_constructor host =
     \<lparr>shadowRoot = Some initial_tree,
      backdropElement = None,
      modalElement = None,
      cancelButton = None,
      confirmButton = None,
      isOpen = False,
      binds = 0,
      lightChildren = host,
      trace = []\<rparr>"

text \<open>Whether the shadow tree holds an element with the given id.\<close>

definition has_elem :: "modal \<Rightarrow> string \<Rightarrow> bool" where
  "has_elem m i = (case shadowRoot m of None \<Rightarrow> False | Some tr \<Rightarrow> tr i \<noteq> None)"

text \<open>\<open>ref.style.p = v\<close> for a reference that is not null.\<close>

definition set_style :: "string option \<Rightarrow> string \<Rightarrow> string \<Rightarrow> modal \<Rightarrow> modal" where
  "set_style r p v m =
     (case r of
        None \<Rightarrow> m
      | Some i \<Rightarrow>
          (case shadowRoot m of
             None \<Rightarrow> m
           | Some tr \<Rightarrow>
               (case tr i of
                  None \<Rightarrow> m
                | Some e \<Rightarrow>
                    m\<lparr>shadowRoot := Some (tr(i \<mapsto> e\<lparr>style := (style e)(p \<mapsto> v)\<rparr>)),
                      trace := trace m @ [StyleWrite i p v]\<rparr>)))"

definition showModalHandler :: "modal \<Rightarrow> modal" where
  "showModalHandler m =
     (if backdropElement m \<noteq> None \<and> modalElement m \<noteq> None \<and> \<not> isOpen m then
        (let m1 = m\<lparr>isOpen := True\<rparr>;
             m2 = set_style (backdropElement m1) ''opacity'' ''1'' m1;
             m3 = set_style (backdropElement m2) ''pointerEvents'' ''all'' m2;
             m4 = set_style (modalElement m3) ''opacity'' ''1'' m3
         in set_style (modalElement m4) ''pointerEvents'' ''all'' m4)
      else m)"

definition hideModalHandler :: "modal \<Rightarrow> modal" where
  "hideModalHandler m =
     (if backdropElement m \<noteq> None \<and> modalElement m \<noteq> None \<and> isOpen m then
        (let m1 = m\<lparr>isOpen := False\<rparr>;
             m2 = set_style (backdropElement m1) ''opacity'' ''0'' m1;
             m3 = set_style (backdropElement m2) ''pointerEvents'' ''none'' m2;
             m4 = set_style (modalElement m3) ''opacity'' ''0'' m3
         in set_style (modalElement m4) ''pointerEvents'' ''none'' m4)
      else m)"

text \<open>
  \<open>this.dispatchEvent(ev)\<close> runs the host's listeners before it returns: they see the
  instance as it is at the call. What the listeners do is the host's and is not modelled.
\<close>

definition dispatchEvent :: "event \<Rightarrow> modal \<Rightarrow> modal" where
  "dispatchEvent ev m = m\<lparr>trace := trace m @ [Dispatched ev (view_of m)]\<rparr>"

definition cancelClickHandler :: "modal \<Rightarrow> modal" where
  "cancelClickHandler m = dispatchEvent (new_Event ''cancel'') (hideModalHandler m)"

definition confirmClickHandler :: "modal \<Rightarrow> modal" where
  "confirmClickHandler m = dispatchEvent (new_Event ''confirm'') (hideModalHandler m)"

text \<open>\<open>shadowRoot.querySelector("#id")\<close>.\<close>

definition querySelector :: "(string \<rightharpoonup> element) \<Rightarrow> string \<Rightarrow> string option" where
  "querySelector tr i = (case tr i of None \<Rightarrow> None | Some e \<Rightarrow> Some i)"

text \<open>\<open>ref.addEventListener("click", this.n.bind(this))\<close> inside \<open>if (ref)\<close>.\<close>

definition add_bound :: "string option \<Rightarrow> string \<Rightarrow> string \<Rightarrow> modal \<Rightarrow> modal" where
  "add_bound r ty n m =
     (case r of
        None \<Rightarrow> m
      | Some i \<Rightarrow>
          (let f = Bound n (binds m); m1 = m\<lparr>binds := Suc (binds m)\<rparr>
           in case shadowRoot m1 of
                None \<Rightarrow> m1
              | Some tr \<Rightarrow>
                  (case tr i of
                     None \<Rightarrow> m1
                   | Some e \<Rightarrow>
                       m1\<lparr>shadowRoot :=
                            Some (tr(i \<mapsto> e\<lparr>listeners := addEventListener ty f (listeners e)\<rparr>))\<rparr>)))"

text \<open>\<open>ref.removeEventListener("click", this.n)\<close> inside \<open>if (ref)\<close>.\<close>

definition remove_method :: "string option \<Rightarrow> string \<Rightarrow> string \<Rightarrow> modal \<Rightarrow> modal" where
  "remove_method r ty n m =
     (case r of
        None \<Rightarrow> m
      | Some i \<Rightarrow>
          (case shadowRoot m of
             None \<Rightarrow> m
           | Some tr \<Rightarrow>
               (case tr i of
                  None \<Rightarrow> m
                | Some e \<Rightarrow>
                    m\<lparr>shadowRoot :=
                         Some (tr(i \<mapsto> e\<lparr>listeners := removeEventListener ty (Method n) (listeners e)\<rparr>))\<rparr>)))"

text \<open>The first block of \<open>connectedCallback\<close>: \<open>if (this.shadowRoot) { ... }\<close>.\<close>

definition resolve_refs :: "modal \<Rightarrow> modal" where
  "resolve_refs m =
     (case shadowRoot m of
        None \<Rightarrow> m
      | Some tr \<Rightarrow>
          m\<lparr>backdropElement := querySelector tr ''backdrop'',
            modalElement := querySelector tr ''modal'',
            cancelButton := querySelector tr ''cancel-button'',
            confirmButton := querySelector tr ''confirm-button''\<rparr>)"

definition Modal_connectedCallback :: "modal \<Rightarrow> modal" where
  "Modal_connectedCallback m =
     (let m1 = resolve_refs m;
          m2 = add_bound (cancelButton m1) ''click'' ''cancelClickHandler'' m1
      in add_bound (confirmButton m2) ''click'' ''confirmClickHandler'' m2)"

definition Modal_disconnectedCallback :: "modal \<Rightarrow> modal" where
  "Modal_disconnectedCallback m =
     (let m1 = remove_method (cancelButton m) ''click'' ''cancelClickHandler'' m
      in remove_method (confirmButton m1) ''click'' ''confirmClickHandler'' m1)"

definition Modal_attributeChangedCallback :: "string \<Rightarrow> jsval \<Rightarrow> jsval \<Rightarrow> modal \<Rightarrow> modal" where
  "Modal_attributeChangedCallback name oldValue newValue m =
     (if name = ''open'' then
        (if strict_eq newValue (JBool (isOpen m)) then m
         else if truthy newValue then showModalHandler m
         else hideModalHandler m)
      else m)"

text \<open>The listeners registered on an element of the shadow tree.\<close>

definition listeners_of :: "modal \<Rightarrow> string \<Rightarrow> listener list" where
  "listeners_of m i =
     (case shadowRoot m of
        None \<Rightarrow> []
      | Some tr \<Rightarrow> (case tr i of None \<Rightarrow> [] | Some e \<Rightarrow> listeners e))"

text \<open>
  A listener of the instance is called. A function made by \<open>this.n.bind(this)\<close> runs the
  method \<open>n\<close> on the instance. The \<open>slotchange\<close> closure only prints, and an unbound
  method would run with the button as \<open>this\<close>: neither touches the instance.
\<close>

fun call_listener :: "fn \<Rightarrow> modal \<Rightarrow> modal" where
  "call_listener (Bound n k) m =
     (if n = ''cancelClickHandler'' then cancelClickHandler m
      else if n = ''confirmClickHandler'' then confirmClickHandler m
      else m)"
| "call_listener (Method n) m = m"
| "call_listener (Arrow n) m = m"

text \<open>
  The button with id \<open>i\<close> is activated: the platform dispatches a \<open>click\<close> event on it
  and calls, in the order of their registration, the \<open>click\<close> listeners the button has
  when the dispatch starts.
\<close>

definition click :: "string \<Rightarrow> modal \<Rightarrow> modal" where
  "click i m = fold call_listener (map snd (filter (\<lambda>l. fst l = ''click'') (listeners_of m i))) m"

section \<open>The tooltip (tooltip.ts, class Tooltip)\<close>

text \<open>
  The children of the tooltip's shadow root, in tree order: the elements the constructor's
  \<open>innerHTML\<close> builds (named by their tag) and the content nodes \<open>showTooltipHandler\<close>
  creates. \<open>Div k s\<close> is the \<open>k\<close>-th \<open>div\<close> made by \<open>document.createElement\<close>, with
  text content \<open>s\<close>.
\<close>

datatype node = Chrome string | Div nat string

fun is_content :: "node \<Rightarrow> bool" where
  "is_content (Div k s) = True"
| "is_content (Chrome n) = False"

definition content_nodes :: "node list \<Rightarrow> node list" where
  "content_nodes ch = filter is_content ch"

datatype dom_error = NotFoundError

text \<open>
  \<open>parent.appendChild(c)\<close> puts \<open>c\<close> last, moving it if it is a child already.
  \<open>parent.removeChild(c)\<close> throws \<open>NotFoundError\<close> when \<open>c\<close> is not a child of \<open>parent\<close>.
\<close>

definition appendChild :: "node \<Rightarrow> node list \<Rightarrow> node list" where
  "appendChild c ch = remove1 c ch @ [c]"

definition removeChild :: "node \<Rightarrow> node list \<Rightarrow> dom_error + node list" where
  "removeChild c ch = (if c \<in> set ch then Inr (remove1 c ch) else Inl NotFoundError)"

text \<open>Assigning to \<open>textContent\<close> turns the value into a string; \<open>null\<close> gives the empty one.\<close>

fun to_textContent :: "jsval \<Rightarrow> string" where
  "to_textContent JNull = []"
| "to_textContent (JStr s) = s"
| "to_textContent (JBool b) = (if b then ''true'' else ''false'')"

text \<open>
  The instance. \<open>icon_listeners\<close> is the listener list of the \<open>span\<close> of the shadow tree,
  \<open>attributes\<close> are the attributes of the host element, \<open>created\<close> counts the \<open>div\<close>
  elements made so far and \<open>tip_binds\<close> the function objects made by \<open>bind\<close>.
\<close>

record tooltip =
  tip_shadowRoot :: "node list option"
  iconElement :: "string option"
  containerElement :: "node option"
  tip_text :: jsval
  attributes :: "string \<rightharpoonup> string"
  icon_listeners :: "listener list"
  created :: nat
  tip_binds :: nat

text \<open>The children the tooltip's constructor puts under its shadow root.\<close>

definition chrome :: "node list" where
  "chrome = [Chrome ''style'', Chrome ''slot'', Chrome ''span'']"

definition Tooltip_constructor :: tooltip where
  "Tooltip_constructor =
     \<lparr>tip_shadowRoot = Some chrome,
      iconElement = None,
      containerElement = None,
      tip_text = JStr [],
      attributes = Map.empty,
      icon_listeners = [],
      created = 0,
      tip_binds = 0\<rparr>"

definition showTooltipHandler :: "tooltip \<Rightarrow> tooltip" where
  "showTooltipHandler t =
     (let c = Div (created t) (to_textContent (tip_text t));
          t1 = t\<lparr>containerElement := Some c, created := Suc (created t)\<rparr>
      in case tip_shadowRoot t1 of
           None \<Rightarrow> t1
         | Some ch \<Rightarrow> t1\<lparr>tip_shadowRoot := Some (appendChild c ch)\<rparr>)"

definition hideTooltipHandler :: "tooltip \<Rightarrow> dom_error + tooltip" where
  "hideTooltipHandler t =
     (case containerElement t of
        None \<Rightarrow> Inr t
      | Some c \<Rightarrow>
          (case tip_shadowRoot t of
             None \<Rightarrow> Inr t
           | Some ch \<Rightarrow>
               (case removeChild c ch of
                  Inl err \<Rightarrow> Inl err
                | Inr ch' \<Rightarrow> Inr (t\<lparr>tip_shadowRoot := Some ch'\<rparr>))))"

text \<open>\<open>shadowRoot.querySelector("span")\<close>: the icon is the only \<open>span\<close> of the tree.\<close>

definition querySelector_span :: "node list \<Rightarrow> string option" where
  "querySelector_span ch = (if Chrome ''span'' \<in> set ch then Some ''span'' else None)"

definition Tooltip_connectedCallback :: "tooltip \<Rightarrow> tooltip" where
  "Tooltip_connectedCallback t =
     (let t1 = (case attributes t ''text'' of
                  None \<Rightarrow> t
                | Some s \<Rightarrow> t\<lparr>tip_text := JStr s\<rparr>)
      in case tip_shadowRoot t1 of
           None \<Rightarrow> t1
         | Some ch \<Rightarrow>
             (let t2 = t1\<lparr>iconElement := querySelector_span ch\<rparr>
              in if iconElement t2 \<noteq> None then
                   (let f = Bound ''showTooltipHandler'' (tip_binds t2);
                        t3 = t2\<lparr>tip_binds := Suc (tip_binds t2),
                                icon_listeners := addEventListener ''mouseenter'' f (icon_listeners t2)\<rparr>;
                        g = Bound ''hideTooltipHandler'' (tip_binds t3)
                    in t3\<lparr>tip_binds := Suc (tip_binds t3),
                          icon_listeners := addEventListener ''mouseleave'' g (icon_listeners t3)\<rparr>)
                 else t2))"

definition Tooltip_disconnectedCallback :: "tooltip \<Rightarrow> tooltip" where
  "Tooltip_disconnectedCallback t =
     (if iconElement t \<noteq> None then
        (let f = Bound ''showTooltipHandler'' (tip_binds t);
             t1 = t\<lparr>tip_binds := Suc (tip_binds t),
                    icon_listeners := removeEventListener ''mouseenter'' f (icon_listeners t)\<rparr>;
             g = Bound ''hideTooltipHandler'' (tip_binds t1)
         in t1\<lparr>tip_binds := Suc (tip_binds t1),
               icon_listeners := removeEventListener ''mouseleave'' g (icon_listeners t1)\<rparr>)
      else t)"

definition Tooltip_attributeChangedCallback :: "string \<Rightarrow> jsval \<Rightarrow> jsval \<Rightarrow> tooltip \<Rightarrow> tooltip" where
  "Tooltip_attributeChangedCallback name oldValue newValue t =
     (if strict_eq oldValue newValue then t
      else if name = ''text'' then t\<lparr>tip_text := newValue\<rparr>
      else t)"

definition Tooltip_observedAttributes :: "string list" where
  "Tooltip_observedAttributes = [''text'']"

text \<open>
  The host sets an attribute: the element stores it and, for an observed attribute, calls
  \<open>attributeChangedCallback\<close> with the old value (\<open>null\<close> when there was none) and the
  new one.
\<close>

definition attr_value :: "string option \<Rightarrow> jsval" where
  "attr_value a = (case a of None \<Rightarrow> JNull | Some s \<Rightarrow> JStr s)"

definition Tooltip_setAttribute :: "string \<Rightarrow> string \<Rightarrow> tooltip \<Rightarrow> tooltip" where
  "Tooltip_setAttribute name s t =
     (let t1 = t\<lparr>attributes := (attributes t)(name \<mapsto> s)\<rparr>
      in if name \<in> set Tooltip_observedAttributes then
           Tooltip_attributeChangedCallback name (attr_value (attributes t name)) (JStr s) t1
         else t1)"

section \<open>The confirming hyperlink (modal.ts, class ConfirmHyperlink)\<close>

record mouse_event =
  defaultPrevented :: bool

text \<open>\<open>answer\<close> is what \<open>confirm("Do you really want to leave?")\<close> returns.\<close>

definition clickHandler :: "bool \<Rightarrow> mouse_event \<Rightarrow> mouse_event" where
  "clickHandler answer ev = (if \<not> answer then ev\<lparr>defaultPrevented := True\<rparr> else ev)"

record hyperlink =
  link_listeners :: "listener list"

definition Hyperlink_constructor :: hyperlink where
  "Hyperlink_constructor = \<lparr>link_listeners = []\<rparr>"

definition Hyperlink_connectedCallback :: "hyperlink \<Rightarrow> hyperlink" where
  "Hyperlink_connectedCallback h =
     h\<lparr>link_listeners := addEventListener ''click'' (Arrow ''clickHandler'') (link_listeners h)\<rparr>"

definition Hyperlink_disconnectedCallback :: "hyperlink \<Rightarrow> hyperlink" where
  "Hyperlink_disconnectedCallback h =
     h\<lparr>link_listeners := removeEventListener ''click'' (Arrow ''clickHandler'') (link_listeners h)\<rparr>"

section \<open>Delivery of an event dispatched on the host element\<close>

text \<open>
  A listener for the event's type sits on the node \<open>depth\<close> levels above the element the
  event is dispatched on (\<open>0\<close>: that element itself), was registered with or without the
  capture option, and \<open>across_shadow\<close> tells whether that node lies outside the tree that
  holds the target, beyond its shadow root.
  The dispatch of the DOM builds the path from the target upwards, crossing a shadow root
  only for a composed event; it then runs the capturing listeners of the path from the top
  down, the listeners of the target, and the other listeners of the path from the bottom up
  only when the event bubbles.
\<close>

record site =
  depth :: nat
  capture :: bool
  across_shadow :: bool

definition delivered :: "event \<Rightarrow> site \<Rightarrow> bool" where
  "delivered ev s =
     (if depth s = 0 then True
      else if across_shadow s \<and> \<not> composed ev then False
      else capture s \<or> bubbles ev)"

section \<open>Reachable states of a modal\<close>

inductive Modal_reachable :: "modal \<Rightarrow> bool" where
  constructed: "Modal_reachable (Modal_constructor host)"
| connected: "Modal_reachable m \<Longrightarrow> Modal_reachable (Modal_connectedCallback m)"
| disconnected: "Modal_reachable m \<Longrightarrow> Modal_reachable (Modal_disconnectedCallback m)"
| attribute: "Modal_reachable m \<Longrightarrow> Modal_reachable (Modal_attributeChangedCallback name ov nv m)"
| cancel: "Modal_reachable m \<Longrightarrow> Modal_reachable (cancelClickHandler m)"
| confirm: "Modal_reachable m \<Longrightarrow> Modal_reachable (confirmClickHandler m)"

text \<open>The presentation the two states of the modal stand for.\<close>

definition shown_view :: view where
  "shown_view =
     \<lparr>v_isOpen = True,
      v_backdrop_opacity = Some ''1'', v_backdrop_pointerEvents = Some ''all'',
      v_modal_opacity = Some ''1'', v_modal_pointerEvents = Some ''all''\<rparr>"

definition hidden_view :: view where
  "hidden_view =
     \<lparr>v_isOpen = False,
      v_backdrop_opacity = Some ''0'', v_backdrop_pointerEvents = Some ''none'',
      v_modal_opacity = Some ''0'', v_modal_pointerEvents = Some ''none''\<rparr>"

definition resolved :: "modal \<Rightarrow> bool" where
  "resolved m = (backdropElement m \<noteq> None \<and> modalElement m \<noteq> None)"

text \<open>
  What holds in every reachable state: the tree keeps its elements, a reference is null or
  names its own element, and the presentation agrees with the flag.
\<close>

definition Modal_inv :: "modal \<Rightarrow> bool" where
  "Modal_inv m =
     (has_elem m ''backdrop'' \<and> has_elem m ''modal''
      \<and> has_elem m ''cancel-button'' \<and> has_elem m ''confirm-button''
      \<and> (backdropElement m = None \<or> backdropElement m = Some ''backdrop'')
      \<and> (modalElement m = None \<or> modalElement m = Some ''modal'')
      \<and> (cancelButton m = None \<or> cancelButton m = Some ''cancel-button'')
      \<and> (confirmButton m = None \<or> confirmButton m = Some ''confirm-button'')
      \<and> view_of m = (if isOpen m then shown_view else hidden_view))"

text \<open>The events the instance has dispatched, oldest first.\<close>

fun dispatches :: "effect list \<Rightarrow> event list" where
  "dispatches [] = []"
| "dispatches (StyleWrite i p v # es) = dispatches es"
| "dispatches (Dispatched ev vw # es) = ev # dispatches es"

text \<open>The style writes the instance has made, oldest first.\<close>

fun style_writes :: "effect list \<Rightarrow> (string \<times> string \<times> string) list" where
  "style_writes [] = []"
| "style_writes (StyleWrite i p v # es) = (i, p, v) # style_writes es"
| "style_writes (Dispatched ev vw # es) = style_writes es"

text \<open>The inline declaration of property \<open>p\<close> on the element with id \<open>i\<close>.\<close>

definition inline_style :: "modal \<Rightarrow> string \<Rightarrow> string \<Rightarrow> string option" where
  "inline_style m i p =
     (case shadowRoot m of
        None \<Rightarrow> None
      | Some tr \<Rightarrow> (case tr i of None \<Rightarrow> None | Some e \<Rightarrow> style e p))"

text \<open>
  The frame of \<open>show()\<close> and \<open>hide()\<close>: \<open>m'\<close> differs from \<open>m\<close> at most in the open
  flag, in the inline \<open>opacity\<close> and \<open>pointerEvents\<close> of the elements the backdrop and
  panel references name, and in the record of the style writes made.
\<close>

definition same_but_presentation :: "modal \<Rightarrow> modal \<Rightarrow> bool" where
  "same_but_presentation m m' =
     (backdropElement m' = backdropElement m
      \<and> modalElement m' = modalElement m
      \<and> cancelButton m' = cancelButton m
      \<and> confirmButton m' = confirmButton m
      \<and> binds m' = binds m
      \<and> lightChildren m' = lightChildren m
      \<and> dispatches (trace m') = dispatches (trace m)
      \<and> (shadowRoot m' = None) = (shadowRoot m = None)
      \<and> (\<forall>i. has_elem m' i = has_elem m i \<and> listeners_of m' i = listeners_of m i)
      \<and> (\<forall>i p. (Some i = backdropElement m \<or> Some i = modalElement m)
                    \<and> (p = ''opacity'' \<or> p = ''pointerEvents'')
                  \<or> inline_style m' i p = inline_style m i p)
      \<and> (\<forall>w \<in> set (style_writes (trace m')).
            (Some (fst w) = backdropElement m \<or> Some (fst w) = modalElement m)
            \<and> (fst (snd w) = ''opacity'' \<or> fst (snd w) = ''pointerEvents'')
            \<or> w \<in> set (style_writes (trace m))))"

section \<open>Instances used as examples\<close>

text \<open>A modal with no projected content, constructed and attached once.\<close>

definition attached_modal :: modal where
  "attached_modal = Modal_connectedCallback (Modal_constructor [])"

text \<open>The same modal, detached and attached again, and then opened by its attribute.\<close>

definition reattached_modal :: modal where
  "reattached_modal = Modal_connectedCallback (Modal_disconnectedCallback attached_modal)"

definition reopened_modal :: modal where
  "reopened_modal =
     Modal_attributeChangedCallback ''open'' JNull (JStr ''true'') reattached_modal"

text \<open>A modal attached once and opened by its attribute.\<close>

definition opened_modal :: modal where
  "opened_modal = Modal_attributeChangedCallback ''open'' JNull (JStr ''true'') attached_modal"

text \<open>A tooltip constructed with the attribute \<open>text\<close> set to \<open>s\<close>, then attached.\<close>

definition attached_tooltip :: "string \<Rightarrow> tooltip" where
  "attached_tooltip s =
     Tooltip_connectedCallback (Tooltip_setAttribute ''text'' s Tooltip_constructor)"

section \<open>Lemmas about the modal\<close>

lemma set_style_fields [simp]:
  "isOpen (set_style r p v m) = isOpen m"
  "backdropElement (set_style r p v m) = backdropElement m"
  "modalElement (set_style r p v m) = modalElement m"
  "cancelButton (set_style r p v m) = cancelButton m"
  "confirmButton (set_style r p v m) = confirmButton m"
  "binds (set_style r p v m) = binds m"
  "lightChildren (set_style r p v m) = lightChildren m"
  by (simp_all add: set_style_def split: option.splits)

lemma isOpen_update_obs [simp]:
  "has_elem (m\<lparr>isOpen := b\<rparr>) j = has_elem m j"
  "presented (m\<lparr>isOpen := b\<rparr>) j q = presented m j q"
  "listeners_of (m\<lparr>isOpen := b\<rparr>) j = listeners_of m j"
  by (simp_all add: has_elem_def presented_def listeners_of_def)

lemma has_elem_set_style [simp]: "has_elem (set_style r p v m) j = has_elem m j"
  by (simp add: set_style_def has_elem_def split: option.splits)

lemma presented_set_style:
  "presented (set_style (Some i) p v m) j q =
     (if has_elem m i \<and> j = i \<and> q = p then Some v else presented m j q)"
  by (simp add: set_style_def has_elem_def presented_def split: option.splits)

lemma listeners_of_set_style [simp]: "listeners_of (set_style r p v m) j = listeners_of m j"
  by (simp add: set_style_def listeners_of_def split: option.splits)

lemma add_bound_fields [simp]:
  "isOpen (add_bound r ty n m) = isOpen m"
  "backdropElement (add_bound r ty n m) = backdropElement m"
  "modalElement (add_bound r ty n m) = modalElement m"
  "cancelButton (add_bound r ty n m) = cancelButton m"
  "confirmButton (add_bound r ty n m) = confirmButton m"
  "lightChildren (add_bound r ty n m) = lightChildren m"
  "trace (add_bound r ty n m) = trace m"
  by (simp_all add: add_bound_def Let_def split: option.splits)

lemma has_elem_add_bound [simp]: "has_elem (add_bound r ty n m) j = has_elem m j"
  by (simp add: add_bound_def has_elem_def Let_def split: option.splits)

lemma presented_add_bound [simp]: "presented (add_bound r ty n m) j q = presented m j q"
  by (simp add: add_bound_def presented_def Let_def split: option.splits)

lemma remove_method_fields [simp]:
  "isOpen (remove_method r ty n m) = isOpen m"
  "backdropElement (remove_method r ty n m) = backdropElement m"
  "modalElement (remove_method r ty n m) = modalElement m"
  "cancelButton (remove_method r ty n m) = cancelButton m"
  "confirmButton (remove_method r ty n m) = confirmButton m"
  "binds (remove_method r ty n m) = binds m"
  "lightChildren (remove_method r ty n m) = lightChildren m"
  "trace (remove_method r ty n m) = trace m"
  by (simp_all add: remove_method_def split: option.splits)

lemma has_elem_remove_method [simp]: "has_elem (remove_method r ty n m) j = has_elem m j"
  by (simp add: remove_method_def has_elem_def split: option.splits)

lemma presented_remove_method [simp]: "presented (remove_method r ty n m) j q = presented m j q"
  by (simp add: remove_method_def presented_def split: option.splits)

lemma view_of_add_bound [simp]: "view_of (add_bound r ty n m) = view_of m"
  by (simp add: view_of_def)

lemma view_of_remove_method [simp]: "view_of (remove_method r ty n m) = view_of m"
  by (simp add: view_of_def)

lemma showModalHandler_fields [simp]:
  "backdropElement (showModalHandler m) = backdropElement m"
  "modalElement (showModalHandler m) = modalElement m"
  "cancelButton (showModalHandler m) = cancelButton m"
  "confirmButton (showModalHandler m) = confirmButton m"
  "binds (showModalHandler m) = binds m"
  "lightChildren (showModalHandler m) = lightChildren m"
  "has_elem (showModalHandler m) j = has_elem m j"
  "listeners_of (showModalHandler m) j = listeners_of m j"
  by (simp_all add: showModalHandler_def Let_def)

lemma hideModalHandler_fields [simp]:
  "backdropElement (hideModalHandler m) = backdropElement m"
  "modalElement (hideModalHandler m) = modalElement m"
  "cancelButton (hideModalHandler m) = cancelButton m"
  "confirmButton (hideModalHandler m) = confirmButton m"
  "binds (hideModalHandler m) = binds m"
  "lightChildren (hideModalHandler m) = lightChildren m"
  "has_elem (hideModalHandler m) j = has_elem m j"
  "listeners_of (hideModalHandler m) j = listeners_of m j"
  by (simp_all add: hideModalHandler_def Let_def)

lemma showModalHandler_skip:
  "\<not> resolved m \<or> isOpen m \<Longrightarrow> showModalHandler m = m"
  by (auto simp: showModalHandler_def resolved_def)

lemma hideModalHandler_skip:
  "\<not> resolved m \<or> \<not> isOpen m \<Longrightarrow> hideModalHandler m = m"
  by (auto simp: hideModalHandler_def resolved_def)

lemma showModalHandler_isOpen:
  "isOpen (showModalHandler m) = (isOpen m \<or> resolved m)"
  by (simp add: showModalHandler_def resolved_def Let_def)

lemma hideModalHandler_isOpen:
  "isOpen (hideModalHandler m) = (isOpen m \<and> \<not> resolved m)"
  by (auto simp: hideModalHandler_def resolved_def Let_def)

lemma view_of_show:
  assumes "backdropElement m = Some ''backdrop''" "modalElement m = Some ''modal''"
    "has_elem m ''backdrop''" "has_elem m ''modal''" "\<not> isOpen m"
  shows "view_of (showModalHandler m) = shown_view"
  using assms
  by (simp add: showModalHandler_def Let_def view_of_def shown_view_def presented_set_style)

lemma view_of_hide:
  assumes "backdropElement m = Some ''backdrop''" "modalElement m = Some ''modal''"
    "has_elem m ''backdrop''" "has_elem m ''modal''" "isOpen m"
  shows "view_of (hideModalHandler m) = hidden_view"
  using assms
  by (simp add: hideModalHandler_def Let_def view_of_def hidden_view_def presented_set_style)

lemma Modal_inv_show: "Modal_inv m \<Longrightarrow> Modal_inv (showModalHandler m)"
proof -
  assume inv: "Modal_inv m"
  show ?thesis
  proof (cases "resolved m \<and> \<not> isOpen m")
    case True
    with inv have "view_of (showModalHandler m) = shown_view"
      by (intro view_of_show) (auto simp: Modal_inv_def resolved_def)
    with inv True show ?thesis
      by (simp add: Modal_inv_def showModalHandler_isOpen)
  next
    case False
    then have "showModalHandler m = m" by (auto intro: showModalHandler_skip)
    with inv show ?thesis by simp
  qed
qed

lemma Modal_inv_hide: "Modal_inv m \<Longrightarrow> Modal_inv (hideModalHandler m)"
proof -
  assume inv: "Modal_inv m"
  show ?thesis
  proof (cases "resolved m \<and> isOpen m")
    case True
    with inv have "view_of (hideModalHandler m) = hidden_view"
      by (intro view_of_hide) (auto simp: Modal_inv_def resolved_def)
    with inv True show ?thesis
      by (simp add: Modal_inv_def hideModalHandler_isOpen)
  next
    case False
    then have "hideModalHandler m = m" by (auto intro: hideModalHandler_skip)
    with inv show ?thesis by simp
  qed
qed

lemma dispatchEvent_fields [simp]:
  "isOpen (dispatchEvent ev m) = isOpen m"
  "shadowRoot (dispatchEvent ev m) = shadowRoot m"
  "backdropElement (dispatchEvent ev m) = backdropElement m"
  "modalElement (dispatchEvent ev m) = modalElement m"
  "cancelButton (dispatchEvent ev m) = cancelButton m"
  "confirmButton (dispatchEvent ev m) = confirmButton m"
  "binds (dispatchEvent ev m) = binds m"
  "lightChildren (dispatchEvent ev m) = lightChildren m"
  by (simp_all add: dispatchEvent_def)

lemma view_of_dispatchEvent [simp]: "view_of (dispatchEvent ev m) = view_of m"
  by (simp add: view_of_def presented_def)

lemma has_elem_dispatchEvent [simp]: "has_elem (dispatchEvent ev m) j = has_elem m j"
  by (simp add: has_elem_def)

lemma Modal_inv_dispatchEvent: "Modal_inv m \<Longrightarrow> Modal_inv (dispatchEvent ev m)"
  by (simp add: Modal_inv_def)

lemma Modal_inv_constructor: "Modal_inv (Modal_constructor host)"
  by (simp add: Modal_inv_def Modal_constructor_def has_elem_def initial_tree_def view_of_def
      presented_def hidden_view_def blank_def sheet_def)

lemma resolve_refs_obs [simp]:
  "isOpen (resolve_refs m) = isOpen m"
  "binds (resolve_refs m) = binds m"
  "lightChildren (resolve_refs m) = lightChildren m"
  "trace (resolve_refs m) = trace m"
  "shadowRoot (resolve_refs m) = shadowRoot m"
  by (simp_all add: resolve_refs_def split: option.splits)

lemma resolve_refs_tree [simp]:
  "has_elem (resolve_refs m) j = has_elem m j"
  "presented (resolve_refs m) j q = presented m j q"
  "listeners_of (resolve_refs m) j = listeners_of m j"
  by (simp_all add: has_elem_def presented_def listeners_of_def)

lemma view_of_resolve_refs [simp]: "view_of (resolve_refs m) = view_of m"
  by (simp add: view_of_def)

lemma resolve_refs_backdrop:
  "has_elem m ''backdrop'' \<Longrightarrow> backdropElement (resolve_refs m) = Some ''backdrop''"
  by (auto simp: resolve_refs_def has_elem_def querySelector_def split: option.splits)

lemma resolve_refs_modal:
  "has_elem m ''modal'' \<Longrightarrow> modalElement (resolve_refs m) = Some ''modal''"
  by (auto simp: resolve_refs_def has_elem_def querySelector_def split: option.splits)

lemma resolve_refs_cancel:
  "has_elem m ''cancel-button'' \<Longrightarrow> cancelButton (resolve_refs m) = Some ''cancel-button''"
  by (auto simp: resolve_refs_def has_elem_def querySelector_def split: option.splits)

lemma resolve_refs_confirm:
  "has_elem m ''confirm-button'' \<Longrightarrow> confirmButton (resolve_refs m) = Some ''confirm-button''"
  by (auto simp: resolve_refs_def has_elem_def querySelector_def split: option.splits)

lemma Modal_inv_resolve_refs: "Modal_inv m \<Longrightarrow> Modal_inv (resolve_refs m)"
  by (simp add: Modal_inv_def resolve_refs_backdrop resolve_refs_modal resolve_refs_cancel
      resolve_refs_confirm)

lemma Modal_inv_add_bound: "Modal_inv m \<Longrightarrow> Modal_inv (add_bound r ty n m)"
  by (simp add: Modal_inv_def)

lemma Modal_inv_remove_method: "Modal_inv m \<Longrightarrow> Modal_inv (remove_method r ty n m)"
  by (simp add: Modal_inv_def)

lemma Modal_inv_connected: "Modal_inv m \<Longrightarrow> Modal_inv (Modal_connectedCallback m)"
  by (simp add: Modal_connectedCallback_def Let_def Modal_inv_resolve_refs Modal_inv_add_bound)

lemma Modal_inv_disconnected: "Modal_inv m \<Longrightarrow> Modal_inv (Modal_disconnectedCallback m)"
  by (simp add: Modal_disconnectedCallback_def Let_def Modal_inv_remove_method)

lemma Modal_inv_attribute: "Modal_inv m \<Longrightarrow> Modal_inv (Modal_attributeChangedCallback name ov nv m)"
  by (simp add: Modal_attributeChangedCallback_def Modal_inv_show Modal_inv_hide)

lemma Modal_reachable_inv: "Modal_reachable m \<Longrightarrow> Modal_inv m"
proof (induction rule: Modal_reachable.induct)
  case (constructed host)
  show ?case by (rule Modal_inv_constructor)
next
  case (connected m)
  then show ?case by (simp add: Modal_inv_connected)
next
  case (disconnected m)
  then show ?case by (simp add: Modal_inv_disconnected)
next
  case (attribute m name ov nv)
  then show ?case by (simp add: Modal_inv_attribute)
next
  case (cancel m)
  then show ?case by (simp add: cancelClickHandler_def Modal_inv_dispatchEvent Modal_inv_hide)
next
  case (confirm m)
  then show ?case by (simp add: confirmClickHandler_def Modal_inv_dispatchEvent Modal_inv_hide)
qed

lemma dispatches_append [simp]: "dispatches (xs @ ys) = dispatches xs @ dispatches ys"
  by (induction xs rule: dispatches.induct) simp_all

lemma style_writes_append [simp]: "style_writes (xs @ ys) = style_writes xs @ style_writes ys"
  by (induction xs rule: style_writes.induct) simp_all

lemma trace_set_style:
  "trace (set_style (Some i) p v m) = trace m @ (if has_elem m i then [StyleWrite i p v] else [])"
  by (simp add: set_style_def has_elem_def split: option.splits)

lemma dispatches_set_style [simp]:
  "dispatches (trace (set_style r p v m)) = dispatches (trace m)"
  by (cases r) (simp_all add: trace_set_style, simp add: set_style_def)

lemma dispatches_show [simp]: "dispatches (trace (showModalHandler m)) = dispatches (trace m)"
  by (simp add: showModalHandler_def Let_def)

lemma dispatches_hide [simp]: "dispatches (trace (hideModalHandler m)) = dispatches (trace m)"
  by (simp add: hideModalHandler_def Let_def)

lemma trace_dispatchEvent:
  "trace (dispatchEvent ev m) = trace m @ [Dispatched ev (view_of m)]"
  by (simp add: dispatchEvent_def)

lemma view_of_hide_reachable:
  assumes "Modal_reachable m" "resolved m"
  shows "view_of (hideModalHandler m) = hidden_view"
proof -
  have inv: "Modal_inv m" using assms(1) by (rule Modal_reachable_inv)
  show ?thesis
  proof (cases "isOpen m")
    case True
    with inv assms(2) show ?thesis
      by (intro view_of_hide) (auto simp: Modal_inv_def resolved_def)
  next
    case False
    then have "hideModalHandler m = m" by (simp add: hideModalHandler_skip)
    with inv False show ?thesis by (simp add: Modal_inv_def)
  qed
qed

lemma attached_modal_refs:
  "backdropElement attached_modal = Some ''backdrop''"
  "modalElement attached_modal = Some ''modal''"
  "cancelButton attached_modal = Some ''cancel-button''"
  "confirmButton attached_modal = Some ''confirm-button''"
  "isOpen attached_modal = False"
  by (simp_all add: attached_modal_def Modal_connectedCallback_def Let_def
      resolve_refs_backdrop resolve_refs_modal resolve_refs_cancel resolve_refs_confirm
      Modal_constructor_def has_elem_def initial_tree_def)

lemma attached_modal_reachable: "Modal_reachable attached_modal"
  unfolding attached_modal_def by (intro Modal_reachable.intros)

lemma attached_modal_resolved: "resolved attached_modal"
  by (simp add: resolved_def attached_modal_refs)

section \<open>Lemmas about the tooltip, the frame of the modal and the example instances\<close>

lemma content_nodes_chrome [simp]: "content_nodes chrome = []"
  by (simp add: content_nodes_def chrome_def)

lemma content_nodes_append [simp]:
  "content_nodes (xs @ ys) = content_nodes xs @ content_nodes ys"
  by (simp add: content_nodes_def)

lemma no_content_not_member: "content_nodes ch = [] \<Longrightarrow> Div k s \<notin> set ch"
proof
  assume e: "content_nodes ch = []" and m: "Div k s \<in> set ch"
  from m have "Div k s \<in> set (content_nodes ch)" by (simp add: content_nodes_def)
  with e show False by simp
qed

lemma appendChild_fresh: "c \<notin> set ch \<Longrightarrow> appendChild c ch = ch @ [c]"
  by (simp add: appendChild_def remove1_idem)

lemma removeChild_last: "c \<notin> set ch \<Longrightarrow> removeChild c (ch @ [c]) = Inr ch"
  by (simp add: removeChild_def remove1_append)

lemma removeChild_absent: "c \<notin> set ch \<Longrightarrow> removeChild c ch = Inl NotFoundError"
  by (simp add: removeChild_def)

lemma show_mounts_one:
  assumes "tip_shadowRoot t = Some ch" and "content_nodes ch = []"
  shows "showTooltipHandler t =
     t\<lparr>containerElement := Some (Div (created t) (to_textContent (tip_text t))),
       created := Suc (created t),
       tip_shadowRoot := Some (ch @ [Div (created t) (to_textContent (tip_text t))])\<rparr>"
proof -
  have "Div (created t) (to_textContent (tip_text t)) \<notin> set ch"
    using assms(2) by (rule no_content_not_member)
  then show ?thesis
    using assms(1) by (simp add: showTooltipHandler_def Let_def appendChild_fresh)
qed

lemma show_then_hide:
  assumes "tip_shadowRoot t = Some ch" and "content_nodes ch = []"
  shows "hideTooltipHandler (showTooltipHandler t) =
     Inr (t\<lparr>containerElement := Some (Div (created t) (to_textContent (tip_text t))),
            created := Suc (created t)\<rparr>)"
proof -
  have fresh: "Div (created t) (to_textContent (tip_text t)) \<notin> set ch"
    using assms(2) by (rule no_content_not_member)
  show ?thesis
    unfolding show_mounts_one [OF assms]
    using assms(1) by (simp add: hideTooltipHandler_def removeChild_last [OF fresh])
qed

lemma attached_tooltip_eq:
  "attached_tooltip s =
     \<lparr>tip_shadowRoot = Some chrome,
      iconElement = Some ''span'',
      containerElement = None,
      tip_text = JStr s,
      attributes = [''text'' \<mapsto> s],
      icon_listeners = [(''mouseenter'', Bound ''showTooltipHandler'' 0),
                        (''mouseleave'', Bound ''hideTooltipHandler'' 1)],
      created = 0,
      tip_binds = 2\<rparr>"
  by (simp add: attached_tooltip_def Tooltip_connectedCallback_def Tooltip_setAttribute_def
      Tooltip_observedAttributes_def Tooltip_attributeChangedCallback_def Tooltip_constructor_def Let_def strict_eq_def
      attr_value_def querySelector_span_def chrome_def addEventListener_def)

lemma listeners_of_attached_modal:
  "listeners_of attached_modal ''cancel-button'' = [(''click'', Bound ''cancelClickHandler'' 0)]"
  "listeners_of attached_modal ''confirm-button'' = [(''click'', Bound ''confirmClickHandler'' 1)]"
  by (simp_all add: attached_modal_def Modal_connectedCallback_def Let_def resolve_refs_def
      querySelector_def Modal_constructor_def initial_tree_def add_bound_def listeners_of_def
      addEventListener_def blank_def)

lemma inline_style_isOpen [simp]: "inline_style (m\<lparr>isOpen := b\<rparr>) j q = inline_style m j q"
  by (simp add: inline_style_def)

lemma trace_isOpen [simp]: "trace (m\<lparr>isOpen := b\<rparr>) = trace m"
  by simp

lemma inline_style_set_style:
  "inline_style (set_style (Some i) p v m) j q =
     (if has_elem m i \<and> j = i \<and> q = p then Some v else inline_style m j q)"
  by (simp add: set_style_def has_elem_def inline_style_def split: option.splits)

lemma style_writes_set_style:
  "style_writes (trace (set_style (Some i) p v m)) =
     style_writes (trace m) @ (if has_elem m i then [(i, p, v)] else [])"
  by (simp add: trace_set_style)

lemma shadowRoot_None_set_style [simp]:
  "(shadowRoot (set_style r p v m) = None) = (shadowRoot m = None)"
  by (simp add: set_style_def split: option.splits)

lemma same_but_presentation_refl: "same_but_presentation m m"
  by (simp add: same_but_presentation_def)

lemma same_but_presentation_flag: "same_but_presentation m (m\<lparr>isOpen := b\<rparr>)"
  by (simp add: same_but_presentation_def)

lemma same_but_presentation_step:
  assumes prev: "same_but_presentation m m'"
    and el: "Some i = backdropElement m \<or> Some i = modalElement m"
    and pr: "p = ''opacity'' \<or> p = ''pointerEvents''"
  shows "same_but_presentation m (set_style (Some i) p v m')"
proof -
  have refs: "backdropElement m' = backdropElement m" "modalElement m' = modalElement m"
    "cancelButton m' = cancelButton m" "confirmButton m' = confirmButton m"
    "binds m' = binds m" "lightChildren m' = lightChildren m"
    "dispatches (trace m') = dispatches (trace m)"
    "(shadowRoot m' = None) = (shadowRoot m = None)"
    using prev by (simp_all add: same_but_presentation_def)
  have tree: "\<And>j. has_elem m' j = has_elem m j" "\<And>j. listeners_of m' j = listeners_of m j"
    using prev by (simp_all add: same_but_presentation_def)
  have inl: "\<And>j q. (Some j = backdropElement m \<or> Some j = modalElement m)
                    \<and> (q = ''opacity'' \<or> q = ''pointerEvents'')
                  \<or> inline_style m' j q = inline_style m j q"
    using prev unfolding same_but_presentation_def by blast
  have wr: "\<And>w. w \<in> set (style_writes (trace m')) \<Longrightarrow>
            (Some (fst w) = backdropElement m \<or> Some (fst w) = modalElement m)
            \<and> (fst (snd w) = ''opacity'' \<or> fst (snd w) = ''pointerEvents'')
            \<or> w \<in> set (style_writes (trace m))"
    using prev unfolding same_but_presentation_def by blast
  have inl': "(Some j = backdropElement m \<or> Some j = modalElement m)
                    \<and> (q = ''opacity'' \<or> q = ''pointerEvents'')
                  \<or> inline_style (set_style (Some i) p v m') j q = inline_style m j q" for j q
  proof (cases "j = i \<and> q = p")
    case True
    with el pr show ?thesis by blast
  next
    case False
    then have "inline_style (set_style (Some i) p v m') j q = inline_style m' j q"
      by (auto simp: inline_style_set_style)
    with inl [of j q] show ?thesis by simp
  qed
  have wr': "(Some (fst w) = backdropElement m \<or> Some (fst w) = modalElement m)
            \<and> (fst (snd w) = ''opacity'' \<or> fst (snd w) = ''pointerEvents'')
            \<or> w \<in> set (style_writes (trace m))"
    if "w \<in> set (style_writes (trace (set_style (Some i) p v m')))" for w
  proof -
    from that have "w \<in> set (style_writes (trace m')) \<or> w = (i, p, v)"
      by (auto simp: style_writes_set_style split: if_splits)
    then show ?thesis
    proof
      assume "w \<in> set (style_writes (trace m'))"
      then show ?thesis by (rule wr)
    next
      assume "w = (i, p, v)"
      with el pr show ?thesis by simp
    qed
  qed
  show ?thesis
    unfolding same_but_presentation_def
    using refs tree inl' wr' by simp
qed

lemma same_but_presentation_writes:
  assumes "backdropElement m = Some b" and "modalElement m = Some c"
  shows "same_but_presentation m
     (set_style (Some c) ''pointerEvents'' v4
       (set_style (Some c) ''opacity'' v3
         (set_style (Some b) ''pointerEvents'' v2
           (set_style (Some b) ''opacity'' v1 (m\<lparr>isOpen := b0\<rparr>)))))"
  using assms
  by (intro same_but_presentation_step same_but_presentation_flag) simp_all

lemma same_but_presentation_fields:
  assumes "same_but_presentation m m'"
  shows "backdropElement m' = backdropElement m" "modalElement m' = modalElement m"
    "cancelButton m' = cancelButton m" "confirmButton m' = confirmButton m"
    "binds m' = binds m" "lightChildren m' = lightChildren m"
    "dispatches (trace m') = dispatches (trace m)"
    "listeners_of m' i = listeners_of m i" "has_elem m' i = has_elem m i"
  using assms by (simp_all add: same_but_presentation_def)

lemma same_but_presentation_other_property:
  assumes "same_but_presentation m m'" and "p \<noteq> ''opacity''" and "p \<noteq> ''pointerEvents''"
  shows "inline_style m' i p = inline_style m i p"
proof -
  have "(Some i = backdropElement m \<or> Some i = modalElement m)
          \<and> (p = ''opacity'' \<or> p = ''pointerEvents'')
        \<or> inline_style m' i p = inline_style m i p"
    using assms(1) unfolding same_but_presentation_def by blast
  with assms(2,3) show ?thesis by blast
qed

lemma same_but_presentation_other_element:
  assumes "same_but_presentation m m'" and "Some i \<noteq> backdropElement m"
    and "Some i \<noteq> modalElement m"
  shows "inline_style m' i p = inline_style m i p"
proof -
  have "(Some i = backdropElement m \<or> Some i = modalElement m)
          \<and> (p = ''opacity'' \<or> p = ''pointerEvents'')
        \<or> inline_style m' i p = inline_style m i p"
    using assms(1) unfolding same_but_presentation_def by blast
  with assms(2,3) show ?thesis by blast
qed

lemma attached_tooltip_shadow: "tip_shadowRoot (attached_tooltip s) = Some chrome"
  by (simp add: attached_tooltip_eq)

lemma attached_tooltip_created: "created (attached_tooltip s) = 0"
  by (simp add: attached_tooltip_eq)

lemma attached_tooltip_text: "tip_text (attached_tooltip s) = JStr s"
  by (simp add: attached_tooltip_eq)

lemma show_attached_tooltip:
  "showTooltipHandler (attached_tooltip s) =
     (attached_tooltip s)\<lparr>containerElement := Some (Div 0 s), created := Suc 0,
       tip_shadowRoot := Some (chrome @ [Div 0 s])\<rparr>"
  using show_mounts_one [OF attached_tooltip_shadow content_nodes_chrome, of s]
  by (simp add: attached_tooltip_created attached_tooltip_text)

lemma hide_show_attached_tooltip:
  "hideTooltipHandler (showTooltipHandler (attached_tooltip s)) =
     Inr ((attached_tooltip s)\<lparr>containerElement := Some (Div 0 s), created := Suc 0\<rparr>)"
  using show_then_hide [OF attached_tooltip_shadow content_nodes_chrome, of s]
  by (simp add: attached_tooltip_created attached_tooltip_text)

lemma Tooltip_setAttribute_text:
  "Tooltip_setAttribute ''text'' v t =
     (if attributes t ''text'' = Some v then t\<lparr>attributes := (attributes t)(''text'' \<mapsto> v)\<rparr>
      else t\<lparr>attributes := (attributes t)(''text'' \<mapsto> v), tip_text := JStr v\<rparr>)"
  by (auto simp: Tooltip_setAttribute_def Tooltip_observedAttributes_def
      Tooltip_attributeChangedCallback_def Let_def strict_eq_def attr_value_def
      split: option.splits)

lemma hide_show_view:
  assumes "Modal_reachable m" and "resolved m" and "\<not> isOpen m"
  shows "view_of (hideModalHandler (showModalHandler m)) = view_of m"
    and "\<not> isOpen (hideModalHandler (showModalHandler m))"
proof -
  have inv: "Modal_inv m" using assms(1) by (rule Modal_reachable_inv)
  then have before: "view_of m = hidden_view"
    using assms(3) by (simp add: Modal_inv_def)
  have res: "resolved (showModalHandler m)"
    using assms(2) by (simp add: resolved_def)
  show closed: "\<not> isOpen (hideModalHandler (showModalHandler m))"
    using res by (simp add: hideModalHandler_isOpen)
  have "Modal_inv (hideModalHandler (showModalHandler m))"
    using inv by (intro Modal_inv_hide Modal_inv_show)
  then have "view_of (hideModalHandler (showModalHandler m)) = hidden_view"
    using closed by (simp add: Modal_inv_def)
  with before show "view_of (hideModalHandler (showModalHandler m)) = view_of m" by simp
qed

lemma dispatches_click:
  "dispatches (trace (cancelClickHandler m)) = dispatches (trace m) @ [new_Event ''cancel'']"
  "dispatches (trace (confirmClickHandler m)) = dispatches (trace m) @ [new_Event ''confirm'']"
  by (simp_all add: cancelClickHandler_def confirmClickHandler_def trace_dispatchEvent)

lemma trace_attached_modal: "trace attached_modal = []"
  by (simp add: attached_modal_def Modal_connectedCallback_def Let_def Modal_constructor_def)

lemma handler_hides_then_signals:
  assumes "Modal_reachable m" and "resolved m"
  shows "view_of (hideModalHandler m) = hidden_view
    \<and> trace (confirmClickHandler m) =
        trace (hideModalHandler m) @ [Dispatched (new_Event ''confirm'') hidden_view]
    \<and> dispatches (trace (confirmClickHandler m)) = dispatches (trace m) @ [new_Event ''confirm'']
    \<and> view_of (confirmClickHandler m) = hidden_view
    \<and> trace (cancelClickHandler m) =
        trace (hideModalHandler m) @ [Dispatched (new_Event ''cancel'') hidden_view]
    \<and> dispatches (trace (cancelClickHandler m)) = dispatches (trace m) @ [new_Event ''cancel'']
    \<and> view_of (cancelClickHandler m) = hidden_view
    \<and> detail (new_Event ''confirm'') = None \<and> detail (new_Event ''cancel'') = None"
proof -
  have hid: "view_of (hideModalHandler m) = hidden_view"
    using assms by (rule view_of_hide_reachable)
  have c1: "trace (confirmClickHandler m) =
      trace (hideModalHandler m) @ [Dispatched (new_Event ''confirm'') hidden_view]"
    by (simp add: confirmClickHandler_def trace_dispatchEvent hid)
  have c2: "trace (cancelClickHandler m) =
      trace (hideModalHandler m) @ [Dispatched (new_Event ''cancel'') hidden_view]"
    by (simp add: cancelClickHandler_def trace_dispatchEvent hid)
  have v1: "view_of (confirmClickHandler m) = hidden_view"
    by (simp add: confirmClickHandler_def hid)
  have v2: "view_of (cancelClickHandler m) = hidden_view"
    by (simp add: cancelClickHandler_def hid)
  have d: "detail (new_Event ''confirm'') = None" "detail (new_Event ''cancel'') = None"
    by (simp_all add: new_Event_def)
  from hid c1 c2 v1 v2 d show ?thesis by simp
qed

lemma reattached_modal_listeners:
  "listeners_of reattached_modal ''confirm-button'' =
     [(''click'', Bound ''confirmClickHandler'' 1), (''click'', Bound ''confirmClickHandler'' 3)]"
  "listeners_of reattached_modal ''cancel-button'' =
     [(''click'', Bound ''cancelClickHandler'' 0), (''click'', Bound ''cancelClickHandler'' 2)]"
  by (simp_all add: reattached_modal_def attached_modal_def Modal_connectedCallback_def
      Modal_disconnectedCallback_def Let_def resolve_refs_def remove_method_def
      querySelector_def Modal_constructor_def initial_tree_def add_bound_def listeners_of_def
      addEventListener_def removeEventListener_def blank_def)

lemma reattached_modal_reachable: "Modal_reachable reattached_modal"
  unfolding reattached_modal_def
  by (intro Modal_reachable.connected Modal_reachable.disconnected attached_modal_reachable)

lemma reattached_modal_state:
  "isOpen reattached_modal = False"
  "trace reattached_modal = []"
  "backdropElement reattached_modal = Some ''backdrop''"
  "modalElement reattached_modal = Some ''modal''"
proof -
  show "isOpen reattached_modal = False"
    by (simp add: reattached_modal_def Modal_connectedCallback_def Modal_disconnectedCallback_def
        Let_def attached_modal_refs)
  show "trace reattached_modal = []"
    by (simp add: reattached_modal_def Modal_connectedCallback_def Modal_disconnectedCallback_def
        Let_def trace_attached_modal)
  have inv: "Modal_inv (Modal_disconnectedCallback attached_modal)"
    by (intro Modal_reachable_inv Modal_reachable.disconnected attached_modal_reachable)
  show "backdropElement reattached_modal = Some ''backdrop''"
    using inv
    by (simp add: reattached_modal_def Modal_connectedCallback_def Let_def
        resolve_refs_backdrop Modal_inv_def)
  show "modalElement reattached_modal = Some ''modal''"
    using inv
    by (simp add: reattached_modal_def Modal_connectedCallback_def Let_def
        resolve_refs_modal Modal_inv_def)
qed

lemma reopened_modal_eq: "reopened_modal = showModalHandler reattached_modal"
  by (simp add: reopened_modal_def Modal_attributeChangedCallback_def strict_eq_def)

lemma opened_modal_eq: "opened_modal = showModalHandler attached_modal"
  by (simp add: opened_modal_def Modal_attributeChangedCallback_def strict_eq_def)

lemma click_two:
  "listeners_of m i = [(''click'', f), (''click'', g)] \<Longrightarrow>
     click i m = call_listener g (call_listener f m)"
  by (simp add: click_def)

lemma click_one: "listeners_of m i = [(''click'', f)] \<Longrightarrow> click i m = call_listener f m"
  by (simp add: click_def)

section \<open>The claims\<close>

text \<open>
  Claim C3. When the \<open>open\<close> attribute changes to a value whose truthiness equals the
  open flag, the callback returns the instance as it was: the flag, every inline style and
  the record of style writes are unchanged. When the truthiness differs, the callback does
  what \<open>show()\<close> does for a truthy value and what \<open>hide()\<close> does otherwise. (The test
  \<open>newValue === this.isOpen\<close> never holds for the strings and \<open>null\<close> the platform
  passes; the guards of the two handlers skip the redundant transition.)
\<close>

theorem C3_attribute_open:
  "(truthy newValue = isOpen m \<longrightarrow>
      Modal_attributeChangedCallback ''open'' oldValue newValue m = m)
   \<and> (truthy newValue \<noteq> isOpen m \<longrightarrow>
      Modal_attributeChangedCallback ''open'' oldValue newValue m =
        (if truthy newValue then showModalHandler m else hideModalHandler m))"
proof (intro conjI impI)
  assume same: "truthy newValue = isOpen m"
  show "Modal_attributeChangedCallback ''open'' oldValue newValue m = m"
  proof (cases "truthy newValue")
    case True
    with same have "showModalHandler m = m" by (simp add: showModalHandler_skip)
    with True show ?thesis by (simp add: Modal_attributeChangedCallback_def)
  next
    case False
    with same have "hideModalHandler m = m" by (simp add: hideModalHandler_skip)
    with False show ?thesis by (simp add: Modal_attributeChangedCallback_def)
  qed
next
  assume differs: "truthy newValue \<noteq> isOpen m"
  then have "\<not> strict_eq newValue (JBool (isOpen m))"
    by (auto simp: strict_eq_def)
  then show "Modal_attributeChangedCallback ''open'' oldValue newValue m =
        (if truthy newValue then showModalHandler m else hideModalHandler m)"
    by (simp add: Modal_attributeChangedCallback_def)
qed

text \<open>
  C3 at an attached modal: the attribute absent while hidden, set while hidden, and set
  again while shown.
\<close>

theorem C3_attribute_open_witness:
  "Modal_attributeChangedCallback ''open'' JNull JNull attached_modal = attached_modal
   \<and> Modal_attributeChangedCallback ''open'' JNull (JStr ''true'') attached_modal =
       showModalHandler attached_modal
   \<and> Modal_attributeChangedCallback ''open'' (JStr ''true'') (JStr ''yes'')
        (showModalHandler attached_modal) = showModalHandler attached_modal"
  using C3_attribute_open [of JNull attached_modal JNull]
    C3_attribute_open [of "JStr ''true''" attached_modal JNull]
    C3_attribute_open [of "JStr ''yes''" "showModalHandler attached_modal" "JStr ''true''"]
  by (simp add: attached_modal_refs showModalHandler_isOpen attached_modal_resolved)

text \<open>
  Claim C2 fails on the modal and on the tooltip. \<open>connectedCallback\<close> registers
  \<open>this.handler.bind(this)\<close>, a new function object. The modal's
  \<open>disconnectedCallback\<close> passes \<open>this.handler\<close>, the unbound method, and the tooltip's
  passes yet another \<open>bind\<close> result: neither is the object that was registered, so
  nothing is removed, and attaching again adds a second listener. The hyperlink registers
  and removes the same arrow function, and its listener list is empty after detachment.
\<close>

theorem C2_listeners_survive_detach:
  "listeners_of (Modal_disconnectedCallback attached_modal) ''cancel-button'' =
     [(''click'', Bound ''cancelClickHandler'' 0)]
   \<and> listeners_of (Modal_disconnectedCallback attached_modal) ''confirm-button'' =
     [(''click'', Bound ''confirmClickHandler'' 1)]
   \<and> listeners_of (Modal_connectedCallback (Modal_disconnectedCallback attached_modal))
       ''confirm-button'' =
     [(''click'', Bound ''confirmClickHandler'' 1), (''click'', Bound ''confirmClickHandler'' 3)]
   \<and> icon_listeners (Tooltip_disconnectedCallback (attached_tooltip ''Hello'')) =
     [(''mouseenter'', Bound ''showTooltipHandler'' 0),
      (''mouseleave'', Bound ''hideTooltipHandler'' 1)]
   \<and> link_listeners (Hyperlink_connectedCallback Hyperlink_constructor) =
     [(''click'', Arrow ''clickHandler'')]
   \<and> link_listeners (Hyperlink_disconnectedCallback
        (Hyperlink_connectedCallback Hyperlink_constructor)) = []"
  by (simp add: attached_modal_def Modal_connectedCallback_def Modal_disconnectedCallback_def
      Let_def resolve_refs_def remove_method_def
      querySelector_def Modal_constructor_def initial_tree_def add_bound_def listeners_of_def
      addEventListener_def removeEventListener_def blank_def
      attached_tooltip_eq Tooltip_disconnectedCallback_def
      Hyperlink_connectedCallback_def Hyperlink_disconnectedCallback_def Hyperlink_constructor_def)

text \<open>
  Claim C9. For every modal, \<open>show()\<close> and \<open>hide()\<close> change at most the open flag and
  the inline \<open>opacity\<close> and \<open>pointerEvents\<close> of the backdrop and the panel (and the
  record of those style writes): the four references, the elements of the shadow tree, every
  listener list, every other inline style, the projected content and the dispatched events
  are as before.
\<close>

theorem C9_show_hide_frame:
  "same_but_presentation m (showModalHandler m) \<and> same_but_presentation m (hideModalHandler m)"
proof
  show "same_but_presentation m (showModalHandler m)"
  proof (cases "backdropElement m \<noteq> None \<and> modalElement m \<noteq> None \<and> \<not> isOpen m")
    case True
    then obtain b c where "backdropElement m = Some b" "modalElement m = Some c" by auto
    with True show ?thesis
      by (simp add: showModalHandler_def Let_def same_but_presentation_writes)
  next
    case False
    then have "showModalHandler m = m" by (auto simp: showModalHandler_def)
    then show ?thesis by (simp add: same_but_presentation_refl)
  qed
next
  show "same_but_presentation m (hideModalHandler m)"
  proof (cases "backdropElement m \<noteq> None \<and> modalElement m \<noteq> None \<and> isOpen m")
    case True
    then obtain b c where "backdropElement m = Some b" "modalElement m = Some c" by auto
    with True show ?thesis
      by (simp add: hideModalHandler_def Let_def same_but_presentation_writes)
  next
    case False
    then have "hideModalHandler m = m" by (auto simp: hideModalHandler_def)
    then show ?thesis by (simp add: same_but_presentation_refl)
  qed
qed

text \<open>
  C9 at an attached modal: the references to the buttons, the listener of the confirm
  button, another style property of the backdrop, the opacity of another element and the
  projected content are untouched by \<open>show()\<close> and \<open>hide()\<close>.
\<close>

theorem C9_show_hide_frame_witness:
  "cancelButton (showModalHandler attached_modal) = Some ''cancel-button''
   \<and> confirmButton (hideModalHandler (showModalHandler attached_modal)) = Some ''confirm-button''
   \<and> listeners_of (showModalHandler attached_modal) ''confirm-button'' =
       [(''click'', Bound ''confirmClickHandler'' 1)]
   \<and> inline_style (showModalHandler attached_modal) ''backdrop'' ''display'' = None
   \<and> inline_style (showModalHandler attached_modal) ''cancel-button'' ''opacity'' = None
   \<and> lightChildren (showModalHandler attached_modal) = []"
proof -
  have a: "same_but_presentation attached_modal (showModalHandler attached_modal)"
    using C9_show_hide_frame [of attached_modal] by (rule conjunct1)
  have b: "same_but_presentation (showModalHandler attached_modal)
      (hideModalHandler (showModalHandler attached_modal))"
    using C9_show_hide_frame [of "showModalHandler attached_modal"] by (rule conjunct2)
  have i: "inline_style attached_modal ''backdrop'' ''display'' = None"
    "inline_style attached_modal ''cancel-button'' ''opacity'' = None"
    "lightChildren attached_modal = []"
    by (simp_all add: attached_modal_def Modal_connectedCallback_def Let_def resolve_refs_def
      querySelector_def Modal_constructor_def initial_tree_def add_bound_def inline_style_def
      blank_def)
  have c1: "cancelButton (showModalHandler attached_modal) = Some ''cancel-button''"
    using same_but_presentation_fields(3) [OF a] by (simp add: attached_modal_refs)
  have c2: "confirmButton (hideModalHandler (showModalHandler attached_modal)) =
      Some ''confirm-button''"
    using same_but_presentation_fields(4) [OF b] same_but_presentation_fields(4) [OF a]
    by (simp add: attached_modal_refs)
  have l: "listeners_of (showModalHandler attached_modal) ''confirm-button'' =
       [(''click'', Bound ''confirmClickHandler'' 1)]"
    using same_but_presentation_fields(8) [OF a, of "''confirm-button''"]
    by (simp add: listeners_of_attached_modal)
  have d: "inline_style (showModalHandler attached_modal) ''backdrop'' ''display'' = None"
    using same_but_presentation_other_property [OF a, of "''display''" "''backdrop''"] i(1)
    by simp
  have e: "inline_style (showModalHandler attached_modal) ''cancel-button'' ''opacity'' = None"
    using same_but_presentation_other_element [OF a, of "''cancel-button''" "''opacity''"] i(2)
    by (simp add: attached_modal_refs)
  have f: "lightChildren (showModalHandler attached_modal) = []"
    using same_but_presentation_fields(6) [OF a] i(3) by simp
  from c1 c2 l d e f show ?thesis by simp
qed

text \<open>
  Claim C5 holds for the modal and for a tooltip that was never shown, and fails for a
  tooltip that was shown and hidden. \<open>hideTooltipHandler\<close> tests \<open>containerElement\<close>,
  which keeps naming the removed node: with no content node mounted, the next \<open>hide()\<close>
  calls \<open>removeChild\<close> on a node that is not a child, and the call throws
  \<open>NotFoundError\<close>.
\<close>

theorem C5_second_hide_throws:
  "hideModalHandler attached_modal = attached_modal
   \<and> hideTooltipHandler (attached_tooltip ''Hello'') = Inr (attached_tooltip ''Hello'')
   \<and> hideTooltipHandler (showTooltipHandler (attached_tooltip ''Hello'')) =
       Inr ((attached_tooltip ''Hello'')\<lparr>containerElement := Some (Div 0 ''Hello''),
              created := Suc 0\<rparr>)
   \<and> tip_shadowRoot ((attached_tooltip ''Hello'')\<lparr>containerElement := Some (Div 0 ''Hello''),
              created := Suc 0\<rparr>) = Some chrome
   \<and> hideTooltipHandler ((attached_tooltip ''Hello'')\<lparr>containerElement := Some (Div 0 ''Hello''),
              created := Suc 0\<rparr>) = Inl NotFoundError"
proof -
  have a: "hideModalHandler attached_modal = attached_modal"
    by (simp add: hideModalHandler_skip attached_modal_refs)
  have b: "hideTooltipHandler (attached_tooltip ''Hello'') = Inr (attached_tooltip ''Hello'')"
    by (simp add: hideTooltipHandler_def attached_tooltip_eq)
  have c: "hideTooltipHandler ((attached_tooltip ''Hello'')\<lparr>containerElement := Some (Div 0 ''Hello''),
              created := Suc 0\<rparr>) = Inl NotFoundError"
    by (simp add: hideTooltipHandler_def attached_tooltip_shadow removeChild_def chrome_def)
  from a b c hide_show_attached_tooltip [of "''Hello''"] attached_tooltip_shadow [of "''Hello''"]
  show ?thesis by simp
qed

text \<open>
  Claim C7. For a tooltip constructed with the attribute \<open>text\<close> set to \<open>s\<close> (\<open>Hello\<close> in
  the claim) and then attached: the icon carries one \<open>mouseenter\<close> listener, bound to
  \<open>showTooltipHandler\<close>, and one \<open>mouseleave\<close> listener, bound to
  \<open>hideTooltipHandler\<close>; the first mounts a content node with text \<open>s\<close> after the
  chrome, the second unmounts it. Setting the attribute to \<open>v\<close> while no content node is
  mounted, before the first hover or after it, leaves the shadow tree as it is, and the node
  the next hover mounts carries \<open>v\<close>.
\<close>

theorem C7_tooltip_scenario:
  "icon_listeners (attached_tooltip s) =
     [(''mouseenter'', Bound ''showTooltipHandler'' 0),
      (''mouseleave'', Bound ''hideTooltipHandler'' 1)]
   \<and> tip_shadowRoot (attached_tooltip s) = Some chrome
   \<and> tip_shadowRoot (showTooltipHandler (attached_tooltip s)) = Some (chrome @ [Div 0 s])
   \<and> hideTooltipHandler (showTooltipHandler (attached_tooltip s)) =
       Inr ((attached_tooltip s)\<lparr>containerElement := Some (Div 0 s), created := Suc 0\<rparr>)
   \<and> tip_shadowRoot ((attached_tooltip s)\<lparr>containerElement := Some (Div 0 s),
        created := Suc 0\<rparr>) = Some chrome
   \<and> tip_shadowRoot (Tooltip_setAttribute ''text'' v
        ((attached_tooltip s)\<lparr>containerElement := Some (Div 0 s), created := Suc 0\<rparr>)) =
       Some chrome
   \<and> tip_shadowRoot (showTooltipHandler (Tooltip_setAttribute ''text'' v
        ((attached_tooltip s)\<lparr>containerElement := Some (Div 0 s), created := Suc 0\<rparr>))) =
       Some (chrome @ [Div (Suc 0) v])
   \<and> tip_shadowRoot (Tooltip_setAttribute ''text'' v (attached_tooltip s)) = Some chrome
   \<and> tip_shadowRoot (showTooltipHandler (Tooltip_setAttribute ''text'' v (attached_tooltip s))) =
       Some (chrome @ [Div 0 v])"
proof -
  let ?T = "attached_tooltip s"
  let ?U = "?T\<lparr>containerElement := Some (Div 0 s), created := Suc 0\<rparr>"
  have l: "icon_listeners ?T =
     [(''mouseenter'', Bound ''showTooltipHandler'' 0),
      (''mouseleave'', Bound ''hideTooltipHandler'' 1)]"
    by (simp add: attached_tooltip_eq)
  have s1: "tip_shadowRoot (showTooltipHandler ?T) = Some (chrome @ [Div 0 s])"
    by (simp add: show_attached_tooltip)
  have u: "tip_shadowRoot ?U = Some chrome"
    by (simp add: attached_tooltip_shadow)
  have a1: "tip_shadowRoot (Tooltip_setAttribute ''text'' v ?U) = Some chrome"
    by (simp add: Tooltip_setAttribute_text attached_tooltip_shadow)
  have a1t: "to_textContent (tip_text (Tooltip_setAttribute ''text'' v ?U)) = v"
    by (simp add: Tooltip_setAttribute_text attached_tooltip_eq)
  have a1c: "created (Tooltip_setAttribute ''text'' v ?U) = Suc 0"
    by (simp add: Tooltip_setAttribute_text)
  have s2: "tip_shadowRoot (showTooltipHandler (Tooltip_setAttribute ''text'' v ?U)) =
       Some (chrome @ [Div (Suc 0) v])"
    by (simp add: show_mounts_one [OF a1 content_nodes_chrome] a1t a1c)
  have a0: "tip_shadowRoot (Tooltip_setAttribute ''text'' v ?T) = Some chrome"
    by (simp add: Tooltip_setAttribute_text attached_tooltip_shadow)
  have a0t: "to_textContent (tip_text (Tooltip_setAttribute ''text'' v ?T)) = v"
    by (simp add: Tooltip_setAttribute_text attached_tooltip_eq)
  have a0c: "created (Tooltip_setAttribute ''text'' v ?T) = 0"
    by (simp add: Tooltip_setAttribute_text attached_tooltip_created)
  have s3: "tip_shadowRoot (showTooltipHandler (Tooltip_setAttribute ''text'' v ?T)) =
       Some (chrome @ [Div 0 v])"
    by (simp add: show_mounts_one [OF a0 content_nodes_chrome] a0t a0c)
  from l attached_tooltip_shadow [of s] s1 hide_show_attached_tooltip [of s] u a1 s2 a0 s3
  show ?thesis by simp
qed

text \<open>
  Claim C6. For a reachable modal that is hidden and has its chrome resolved, \<open>show()\<close>
  followed by \<open>hide()\<close> gives back the presentation there was before: the flag is false
  and backdrop and panel present the opacity and pointer-events they presented. (On the
  first round the inline declarations go from unset to the values of the style sheet.)
  For a tooltip whose shadow tree holds no content node, \<open>show()\<close> followed by \<open>hide()\<close>
  raises no error and gives back the very child list there was; only
  \<open>containerElement\<close> and the count of created nodes differ.
\<close>

theorem C6_show_then_hide_restores:
  "(Modal_reachable m \<and> resolved m \<and> \<not> isOpen m \<longrightarrow>
      view_of (hideModalHandler (showModalHandler m)) = view_of m
      \<and> \<not> isOpen (hideModalHandler (showModalHandler m)))
   \<and> (tip_shadowRoot t = Some ch \<and> content_nodes ch = [] \<longrightarrow>
      hideTooltipHandler (showTooltipHandler t) =
        Inr (t\<lparr>containerElement := Some (Div (created t) (to_textContent (tip_text t))),
               created := Suc (created t)\<rparr>)
      \<and> tip_shadowRoot (t\<lparr>containerElement := Some (Div (created t) (to_textContent (tip_text t))),
               created := Suc (created t)\<rparr>) = Some ch)"
proof (intro conjI impI)
  assume h: "Modal_reachable m \<and> resolved m \<and> \<not> isOpen m"
  then show "view_of (hideModalHandler (showModalHandler m)) = view_of m"
    by (simp add: hide_show_view(1))
  from h show "\<not> isOpen (hideModalHandler (showModalHandler m))"
    by (simp add: hide_show_view(2))
next
  assume h: "tip_shadowRoot t = Some ch \<and> content_nodes ch = []"
  then show "hideTooltipHandler (showTooltipHandler t) =
        Inr (t\<lparr>containerElement := Some (Div (created t) (to_textContent (tip_text t))),
               created := Suc (created t)\<rparr>)"
    by (simp add: show_then_hide)
  from h show "tip_shadowRoot (t\<lparr>containerElement := Some (Div (created t) (to_textContent (tip_text t))),
               created := Suc (created t)\<rparr>) = Some ch"
    by simp
qed

text \<open>
  C6 at an attached modal and at an attached tooltip with text \<open>Hello\<close>.
\<close>

theorem C6_show_then_hide_restores_witness:
  "view_of (hideModalHandler (showModalHandler attached_modal)) = hidden_view
   \<and> view_of attached_modal = hidden_view
   \<and> view_of (showModalHandler attached_modal) = shown_view
   \<and> hideTooltipHandler (showTooltipHandler (attached_tooltip ''Hello'')) =
       Inr ((attached_tooltip ''Hello'')\<lparr>containerElement := Some (Div 0 ''Hello''),
              created := Suc 0\<rparr>)
   \<and> tip_shadowRoot (showTooltipHandler (attached_tooltip ''Hello'')) =
       Some (chrome @ [Div 0 ''Hello''])"
proof -
  have inv: "Modal_inv attached_modal"
    using attached_modal_reachable by (rule Modal_reachable_inv)
  then have v0: "view_of attached_modal = hidden_view"
    by (simp add: Modal_inv_def attached_modal_refs)
  have v1: "view_of (showModalHandler attached_modal) = shown_view"
    using inv by (intro view_of_show) (simp_all add: attached_modal_refs Modal_inv_def)
  have m: "view_of (hideModalHandler (showModalHandler attached_modal)) = view_of attached_modal"
    using C6_show_then_hide_restores [of attached_modal "attached_tooltip ''Hello''" chrome]
      attached_modal_reachable attached_modal_resolved
    by (simp add: attached_modal_refs)
  have t: "hideTooltipHandler (showTooltipHandler (attached_tooltip ''Hello'')) =
       Inr ((attached_tooltip ''Hello'')\<lparr>containerElement := Some (Div 0 ''Hello''),
              created := Suc 0\<rparr>)"
    using C6_show_then_hide_restores [of attached_modal "attached_tooltip ''Hello''" chrome]
    by (simp add: attached_tooltip_shadow attached_tooltip_created attached_tooltip_text)
  from m v0 v1 t show ?thesis by (simp add: show_attached_tooltip)
qed

text \<open>
  Claim C1 fails on the tooltip: \<open>showTooltipHandler\<close> has no guard, so a second
  \<open>show()\<close> mounts a second content node.
\<close>

theorem C1_double_show_mounts_two:
  "tip_shadowRoot (showTooltipHandler (attached_tooltip ''Hello'')) =
     Some (chrome @ [Div 0 ''Hello''])
   \<and> tip_shadowRoot (showTooltipHandler (showTooltipHandler (attached_tooltip ''Hello''))) =
     Some (chrome @ [Div 0 ''Hello'', Div 1 ''Hello''])
   \<and> showTooltipHandler (showTooltipHandler (attached_tooltip ''Hello'')) \<noteq>
     showTooltipHandler (attached_tooltip ''Hello'')"
proof -
  have a: "tip_shadowRoot (showTooltipHandler (attached_tooltip ''Hello'')) =
     Some (chrome @ [Div 0 ''Hello''])"
    by (simp add: show_attached_tooltip)
  have b: "tip_shadowRoot (showTooltipHandler (showTooltipHandler (attached_tooltip ''Hello''))) =
     Some (chrome @ [Div 0 ''Hello'', Div 1 ''Hello''])"
    unfolding show_attached_tooltip
    by (simp add: showTooltipHandler_def Let_def appendChild_def attached_tooltip_text
        chrome_def)
  have "tip_shadowRoot (showTooltipHandler (showTooltipHandler (attached_tooltip ''Hello''))) \<noteq>
     tip_shadowRoot (showTooltipHandler (attached_tooltip ''Hello''))"
    unfolding a b by simp
  then have c: "showTooltipHandler (showTooltipHandler (attached_tooltip ''Hello'')) \<noteq>
     showTooltipHandler (attached_tooltip ''Hello'')"
    by auto
  from a b c show ?thesis by simp
qed

text \<open>
  Claim C1 as amended. For every modal, \<open>show()\<close> twice in succession leaves exactly the
  instance a single \<open>show()\<close> leaves: flag, inline styles, references and the record of
  style writes. For a tooltip whose shadow tree holds no content node, one \<open>show()\<close>
  mounts exactly one content node, carrying the current text.
\<close>

theorem C1_show_idempotent_modal:
  "showModalHandler (showModalHandler m) = showModalHandler m
   \<and> (tip_shadowRoot t = Some ch \<and> content_nodes ch = [] \<longrightarrow>
        tip_shadowRoot (showTooltipHandler t) =
          Some (ch @ [Div (created t) (to_textContent (tip_text t))])
        \<and> content_nodes (ch @ [Div (created t) (to_textContent (tip_text t))]) =
          [Div (created t) (to_textContent (tip_text t))])"
proof (intro conjI impI)
  show "showModalHandler (showModalHandler m) = showModalHandler m"
  proof (cases "resolved m")
    case True
    then have "isOpen (showModalHandler m)" by (simp add: showModalHandler_isOpen)
    then show ?thesis by (simp add: showModalHandler_skip)
  next
    case False
    then show ?thesis by (simp add: showModalHandler_skip)
  qed
next
  assume h: "tip_shadowRoot t = Some ch \<and> content_nodes ch = []"
  then show "tip_shadowRoot (showTooltipHandler t) =
          Some (ch @ [Div (created t) (to_textContent (tip_text t))])"
    by (simp add: show_mounts_one)
  from h show "content_nodes (ch @ [Div (created t) (to_textContent (tip_text t))]) =
          [Div (created t) (to_textContent (tip_text t))]"
    by (simp add: content_nodes_def)
qed

text \<open>
  The amended C1 at an attached modal and at an attached tooltip with text \<open>Hello\<close>.
\<close>

theorem C1_show_idempotent_modal_witness:
  "showModalHandler (showModalHandler attached_modal) = showModalHandler attached_modal
   \<and> tip_shadowRoot (showTooltipHandler (attached_tooltip ''Hello'')) =
       Some (chrome @ [Div 0 ''Hello''])
   \<and> content_nodes (chrome @ [Div 0 ''Hello'']) = [Div 0 ''Hello'']"
  using C1_show_idempotent_modal [of attached_modal "attached_tooltip ''Hello''" chrome]
  by (simp add: attached_tooltip_shadow attached_tooltip_created attached_tooltip_text)

text \<open>
  Claim C8 fails on the tooltip: \<open>showTooltipHandler\<close> never looks at the icon
  reference, so on an instance that is not attached yet (the reference is null) it mounts
  the content node all the same.
\<close>

theorem C8_tooltip_show_before_attach:
  "iconElement Tooltip_constructor = None
   \<and> tip_shadowRoot Tooltip_constructor = Some chrome
   \<and> tip_shadowRoot (showTooltipHandler Tooltip_constructor) = Some (chrome @ [Div 0 []])"
  by (simp add: Tooltip_constructor_def showTooltipHandler_def Let_def appendChild_def chrome_def)

text \<open>
  Claim C8 as amended. On a modal whose backdrop or panel reference is unresolved,
  \<open>show()\<close> and \<open>hide()\<close> return the instance unchanged. On a tooltip, \<open>hide()\<close> raises
  no error and changes nothing when no container was created yet or the shadow root is
  missing; \<open>show()\<close> with a missing shadow root raises no error and mounts nothing (it
  still creates the node and stores it in \<open>containerElement\<close>), and what \<open>show()\<close> does
  never depends on the icon reference.
\<close>

theorem C8_unresolved_skipped:
  "(\<not> resolved m \<longrightarrow> showModalHandler m = m \<and> hideModalHandler m = m)
   \<and> (containerElement t = None \<or> tip_shadowRoot t = None \<longrightarrow> hideTooltipHandler t = Inr t)
   \<and> (tip_shadowRoot t = None \<longrightarrow>
        showTooltipHandler t =
          t\<lparr>containerElement := Some (Div (created t) (to_textContent (tip_text t))),
            created := Suc (created t)\<rparr>)
   \<and> showTooltipHandler (t\<lparr>iconElement := r\<rparr>) = (showTooltipHandler t)\<lparr>iconElement := r\<rparr>"
proof (intro conjI impI)
  assume "\<not> resolved m"
  then show "showModalHandler m = m" by (simp add: showModalHandler_skip)
next
  assume "\<not> resolved m"
  then show "hideModalHandler m = m" by (simp add: hideModalHandler_skip)
next
  assume "containerElement t = None \<or> tip_shadowRoot t = None"
  then show "hideTooltipHandler t = Inr t"
    by (auto simp: hideTooltipHandler_def split: option.splits)
next
  assume "tip_shadowRoot t = None"
  then show "showTooltipHandler t =
          t\<lparr>containerElement := Some (Div (created t) (to_textContent (tip_text t))),
            created := Suc (created t)\<rparr>"
    by (simp add: showTooltipHandler_def Let_def)
next
  show "showTooltipHandler (t\<lparr>iconElement := r\<rparr>) = (showTooltipHandler t)\<lparr>iconElement := r\<rparr>"
    by (simp add: showTooltipHandler_def Let_def split: option.splits)
qed

text \<open>
  The amended C8 at a modal that is constructed and not attached, at a tooltip that is
  constructed and not attached, and at a tooltip without a shadow root.
\<close>

theorem C8_unresolved_skipped_witness:
  "showModalHandler (Modal_constructor []) = Modal_constructor []
   \<and> hideModalHandler (Modal_constructor []) = Modal_constructor []
   \<and> hideTooltipHandler Tooltip_constructor = Inr Tooltip_constructor
   \<and> tip_shadowRoot (showTooltipHandler (Tooltip_constructor\<lparr>tip_shadowRoot := None\<rparr>)) = None
   \<and> hideTooltipHandler (showTooltipHandler (Tooltip_constructor\<lparr>tip_shadowRoot := None\<rparr>)) =
       Inr (showTooltipHandler (Tooltip_constructor\<lparr>tip_shadowRoot := None\<rparr>))"
proof -
  have u: "\<not> resolved (Modal_constructor [])"
    by (simp add: resolved_def Modal_constructor_def)
  have a: "showModalHandler (Modal_constructor []) = Modal_constructor []
      \<and> hideModalHandler (Modal_constructor []) = Modal_constructor []"
    using C8_unresolved_skipped [of "Modal_constructor []" Tooltip_constructor None] u by simp
  have b: "hideTooltipHandler Tooltip_constructor = Inr Tooltip_constructor"
    using C8_unresolved_skipped [of "Modal_constructor []" Tooltip_constructor None]
    by (simp add: Tooltip_constructor_def)
  have c: "showTooltipHandler (Tooltip_constructor\<lparr>tip_shadowRoot := None\<rparr>) =
      Tooltip_constructor\<lparr>tip_shadowRoot := None, containerElement := Some (Div 0 []),
        created := Suc 0\<rparr>"
    using C8_unresolved_skipped [of "Modal_constructor []"
        "Tooltip_constructor\<lparr>tip_shadowRoot := None\<rparr>" None]
    by (simp add: Tooltip_constructor_def)
  have d: "hideTooltipHandler (Tooltip_constructor\<lparr>tip_shadowRoot := None,
        containerElement := Some (Div 0 []), created := Suc 0\<rparr>) =
      Inr (Tooltip_constructor\<lparr>tip_shadowRoot := None, containerElement := Some (Div 0 []),
        created := Suc 0\<rparr>)"
    using C8_unresolved_skipped [of "Modal_constructor []"
        "Tooltip_constructor\<lparr>tip_shadowRoot := None, containerElement := Some (Div 0 []),
          created := Suc 0\<rparr>" None]
    by simp
  from a b c d show ?thesis by simp
qed

text \<open>
  Claim C10 fails for capturing listeners: an event that does not bubble still passes
  the ancestors of its target in the capture phase, so a listener registered with the
  capture option on the parent of the modal receives \<open>confirm\<close> and \<open>cancel\<close>.
\<close>

theorem C10_capturing_ancestor_receives:
  "dispatches (trace (confirmClickHandler attached_modal)) = [new_Event ''confirm'']
   \<and> dispatches (trace (cancelClickHandler attached_modal)) = [new_Event ''cancel'']
   \<and> delivered (new_Event ''confirm'') \<lparr>depth = 1, capture = True, across_shadow = False\<rparr>
   \<and> delivered (new_Event ''cancel'') \<lparr>depth = 1, capture = True, across_shadow = False\<rparr>"
  by (simp add: dispatches_click trace_attached_modal delivered_def new_Event_def)

text \<open>
  Claim C10 as amended. Each click handler dispatches one plain event, \<open>cancel\<close> or
  \<open>confirm\<close>, built with the default options: it does not bubble, is not composed, is not
  cancelable and has no detail. Such an event reaches the listeners on the modal element
  itself and the capturing listeners on its ancestors within the same tree; it reaches no
  listener registered without the capture option on an ancestor, and none beyond a shadow
  root.
\<close>

theorem C10_plain_events:
  "dispatches (trace (cancelClickHandler m)) = dispatches (trace m) @ [new_Event ''cancel'']
   \<and> dispatches (trace (confirmClickHandler m)) = dispatches (trace m) @ [new_Event ''confirm'']
   \<and> \<not> bubbles (new_Event ty) \<and> \<not> composed (new_Event ty) \<and> \<not> cancelable (new_Event ty)
   \<and> detail (new_Event ty) = None
   \<and> delivered (new_Event ty) s = (depth s = 0 \<or> (capture s \<and> \<not> across_shadow s))"
  by (auto simp: dispatches_click delivered_def new_Event_def)

text \<open>
  Claim C4 fails on a modal that was detached and attached again. \<open>disconnectedCallback\<close>
  removes nothing (see C2), so the second \<open>connectedCallback\<close> leaves two \<open>click\<close>
  listeners on each button: one activation of the confirm button runs
  \<open>confirmClickHandler\<close> twice and two \<open>confirm\<close> events are dispatched, and likewise for
  cancel. On a modal attached once, one activation dispatches one event, after the hide
  transition.
\<close>

theorem C4_second_attach_doubles_signal:
  "listeners_of reopened_modal ''confirm-button'' =
     [(''click'', Bound ''confirmClickHandler'' 1), (''click'', Bound ''confirmClickHandler'' 3)]
   \<and> resolved reopened_modal \<and> isOpen reopened_modal
   \<and> dispatches (trace reopened_modal) = []
   \<and> click ''confirm-button'' reopened_modal =
       confirmClickHandler (confirmClickHandler reopened_modal)
   \<and> dispatches (trace (click ''confirm-button'' reopened_modal)) =
       [new_Event ''confirm'', new_Event ''confirm'']
   \<and> dispatches (trace (click ''cancel-button'' reopened_modal)) =
       [new_Event ''cancel'', new_Event ''cancel'']
   \<and> dispatches (trace (click ''confirm-button'' opened_modal)) = [new_Event ''confirm'']
   \<and> dispatches (trace (click ''cancel-button'' opened_modal)) = [new_Event ''cancel'']
   \<and> view_of (click ''confirm-button'' opened_modal) = hidden_view"
proof -
  have l: "listeners_of reopened_modal ''confirm-button'' =
     [(''click'', Bound ''confirmClickHandler'' 1), (''click'', Bound ''confirmClickHandler'' 3)]"
    "listeners_of reopened_modal ''cancel-button'' =
     [(''click'', Bound ''cancelClickHandler'' 0), (''click'', Bound ''cancelClickHandler'' 2)]"
    by (simp_all add: reopened_modal_eq reattached_modal_listeners)
  have r: "resolved reopened_modal"
    by (simp add: reopened_modal_eq resolved_def reattached_modal_state)
  have o: "isOpen reopened_modal"
    by (simp add: reopened_modal_eq showModalHandler_isOpen resolved_def reattached_modal_state)
  have d: "dispatches (trace reopened_modal) = []"
    by (simp add: reopened_modal_eq reattached_modal_state)
  have c2: "click ''confirm-button'' reopened_modal =
       confirmClickHandler (confirmClickHandler reopened_modal)"
    by (simp add: click_two [OF l(1)])
  have k2: "click ''cancel-button'' reopened_modal =
       cancelClickHandler (cancelClickHandler reopened_modal)"
    by (simp add: click_two [OF l(2)])
  have e2: "dispatches (trace (click ''confirm-button'' reopened_modal)) =
       [new_Event ''confirm'', new_Event ''confirm'']"
    by (simp add: c2 dispatches_click d)
  have f2: "dispatches (trace (click ''cancel-button'' reopened_modal)) =
       [new_Event ''cancel'', new_Event ''cancel'']"
    by (simp add: k2 dispatches_click d)
  have l1: "listeners_of opened_modal ''confirm-button'' =
      [(''click'', Bound ''confirmClickHandler'' 1)]"
    "listeners_of opened_modal ''cancel-button'' =
      [(''click'', Bound ''cancelClickHandler'' 0)]"
    by (simp_all add: opened_modal_eq listeners_of_attached_modal)
  have d1: "dispatches (trace opened_modal) = []"
    by (simp add: opened_modal_eq trace_attached_modal)
  have c1: "click ''confirm-button'' opened_modal = confirmClickHandler opened_modal"
    by (simp add: click_one [OF l1(1)])
  have k1: "click ''cancel-button'' opened_modal = cancelClickHandler opened_modal"
    by (simp add: click_one [OF l1(2)])
  have e1: "dispatches (trace (click ''confirm-button'' opened_modal)) = [new_Event ''confirm'']"
    by (simp add: c1 dispatches_click d1)
  have f1: "dispatches (trace (click ''cancel-button'' opened_modal)) = [new_Event ''cancel'']"
    by (simp add: k1 dispatches_click d1)
  have reach: "Modal_reachable opened_modal"
    unfolding opened_modal_def by (intro Modal_reachable.attribute attached_modal_reachable)
  have res: "resolved opened_modal"
    using attached_modal_resolved by (simp add: opened_modal_eq resolved_def)
  have v: "view_of (click ''confirm-button'' opened_modal) = hidden_view"
    using handler_hides_then_signals [OF reach res] by (simp add: c1)
  from l(1) r o d c2 e2 f2 e1 f1 v show ?thesis by simp
qed

end
